theory Spec2Isabelle
  imports Main "HOL-Library.Word"
begin

unbundle bit_operations_syntax

section \<open>The PCF8574 port of pywiring/i2c.py\<close>

text \<open>
  The model follows \<^verbatim>\<open>src/pywiring/i2c.py\<close>. A port object is a record; every method
  takes the object and returns it updated. A Python exception is a value: a method that
  returns nothing yields \<open>error option \<times> state\<close> (\<open>None\<close>: it returned), a method that
  returns a value yields \<open>(error + value) \<times> state\<close>. The state is returned on the error
  branches too, because a Python object keeps the assignments made before a raise.

  \<^verbatim>\<open>_dirmask\<close> is a \<^verbatim>\<open>numpy.uint8\<close>, an \<open>8 word\<close>. \<^verbatim>\<open>_shadow\<close> is the byte read from the
  bus at construction and afterwards the result of \<^verbatim>\<open>value & ~uint8(_dirmask)\<close>; its
  value always lies in \<open>0..255\<close>, so it is an \<open>8 word\<close> as well. Pin indices and analog
  values are Python integers, \<open>int\<close>.
\<close>

datatype error = ValueError | OverflowError | IndexError | KeyError | TransportError

subsection \<open>The bus transport\<close>

text \<open>
  \<^verbatim>\<open>smbus.SMBus\<close> is an external library. Its handle is modelled from the point where
  \<^verbatim>\<open>open\<close> has succeeded, as a script of what the transport will answer and a log of
  the transactions it has carried out:
  \<^item> \<open>rx\<close>: the outcomes of the \<^verbatim>\<open>read_byte\<close> calls to come, \<open>Some b\<close> for the byte \<open>b\<close>,
    \<open>None\<close> for a failed transaction;
  \<^item> \<open>tx\<close>: the outcomes of the \<^verbatim>\<open>write_byte\<close> calls to come, \<open>True\<close> for success;
  \<^item> \<open>events\<close>: the transactions carried out so far, oldest first.
  A transaction on an exhausted script fails.
\<close>

datatype bus_event = ReadByte int "8 word" | WriteByte int int

record smbus =
  rx :: "8 word option list"
  tx :: "bool list"
  events :: "bus_event list"

fun read_byte :: "smbus \<Rightarrow> int \<Rightarrow> (error + 8 word) \<times> smbus" where
  "read_byte b a =
     (case rx b of
        [] \<Rightarrow> (Inl TransportError, b)
      | None # r \<Rightarrow> (Inl TransportError, b\<lparr>rx := r\<rparr>)
      | Some v # r \<Rightarrow> (Inr v, b\<lparr>rx := r, events := events b @ [ReadByte a v]\<rparr>))"

fun write_byte :: "smbus \<Rightarrow> int \<Rightarrow> int \<Rightarrow> error option \<times> smbus" where
  "write_byte b a v =
     (case tx b of
        [] \<Rightarrow> (Some TransportError, b)
      | False # r \<Rightarrow> (Some TransportError, b\<lparr>tx := r\<rparr>)
      | True # r \<Rightarrow> (None, b\<lparr>tx := r, events := events b @ [WriteByte a v]\<rparr>))"

subsection \<open>The port object\<close>

record pcf8574 =
  bus :: smbus
  address :: int
  dirmask :: "8 word"
  shadow :: "8 word"

definition number_of_pins :: int where
  "number_of_pins = 8"

text \<open>
  \<^verbatim>\<open>__init__\<close>: \<^verbatim>\<open>_dirmask = uint8(0xFF)\<close>, \<^verbatim>\<open>_shadow = _bus.read_byte(address)\<close>. A failed
  read leaves no object.
\<close>

definition init :: "smbus \<Rightarrow> int \<Rightarrow> error + pcf8574" where
  "init b a =
     (case read_byte b a of
        (Inl e, b') \<Rightarrow> Inl e
      | (Inr v, b') \<Rightarrow> Inr \<lparr>bus = b', address = a, dirmask = 0xFF, shadow = v\<rparr>)"

text \<open>
  \<^verbatim>\<open>write\<close> (\<open>write_port\<close> here, \<open>write\<close> being a proof command): the shadow is
  assigned first, then the byte \<^verbatim>\<open>int(_shadow)\<close> goes to the bus. The argument is an
  8-bit value.
\<close>

definition write_port :: "pcf8574 \<Rightarrow> 8 word \<Rightarrow> error option \<times> pcf8574" where
  "write_port st val =
     (let st' = st\<lparr>shadow := val AND NOT (dirmask st)\<rparr> in
      case write_byte (bus st') (address st') (uint (shadow st')) of
        (r, b') \<Rightarrow> (r, st'\<lparr>bus := b'\<rparr>))"

text \<open>\<^verbatim>\<open>read\<close>: \<^verbatim>\<open>_dirmask & uint8(_bus.read_byte(address))\<close>.\<close>

definition read :: "pcf8574 \<Rightarrow> (error + 8 word) \<times> pcf8574" where
  "read st =
     (case read_byte (bus st) (address st) of
        (Inl e, b') \<Rightarrow> (Inl e, st\<lparr>bus := b'\<rparr>)
      | (Inr v, b') \<Rightarrow> (Inr (dirmask st AND v), st\<lparr>bus := b'\<rparr>))"

definition poweroff_inputs :: "pcf8574 \<Rightarrow> error option \<times> pcf8574" where
  "poweroff_inputs st = write_port st (shadow st)"

subsection \<open>Direction configuration\<close>

text \<open>
  \<^verbatim>\<open>1 << pin\<close> on Python integers: a negative shift count raises \<^verbatim>\<open>ValueError\<close>.
\<close>

definition lshift1 :: "int \<Rightarrow> error + int" where
  "lshift1 pin = (if pin < 0 then Inl ValueError else Inr (push_bit (nat pin) 1))"

text \<open>
  \<^verbatim>\<open>numpy.uint8(n)\<close> on a Python integer. In range it is the byte \<open>n\<close>. Out of range the
  result depends on the numpy release (older ones wrap around silently or raise
  \<^verbatim>\<open>OverflowError\<close> by the size of \<open>n\<close>, newer ones always raise), and the source pins no
  release: what happens there is the parameter \<open>oor\<close>, and the theorems hold for every
  choice of it.
\<close>

type_synonym out_of_range = "int \<Rightarrow> error + 8 word"

definition uint8 :: "out_of_range \<Rightarrow> int \<Rightarrow> error + 8 word" where
  "uint8 oor n = (if 0 \<le> n \<and> n < 256 then Inr (word_of_int n) else oor n)"

text \<open>
  \<^verbatim>\<open>pin_mode(pin, input, pullup, pulldown, localonly)\<close>; the source never reads
  \<^verbatim>\<open>pullup\<close> and \<^verbatim>\<open>pulldown\<close>. The right-hand side \<^verbatim>\<open>uint8(1 << pin)\<close> is evaluated before
  the assignment, so a raise leaves the mask as it was.
\<close>

definition pin_mode ::
  "out_of_range \<Rightarrow> pcf8574 \<Rightarrow> int \<Rightarrow> bool \<Rightarrow> bool \<Rightarrow> error option \<times> pcf8574" where
  "pin_mode oor st pin input localonly =
     (case lshift1 pin of
        Inl e \<Rightarrow> (Some e, st)
      | Inr n \<Rightarrow>
          (case uint8 oor n of
             Inl e \<Rightarrow> (Some e, st)
           | Inr m \<Rightarrow>
               (let st' = st\<lparr>dirmask := (if input then dirmask st OR m
                                            else dirmask st AND NOT m)\<rparr>
                in if \<not> localonly then poweroff_inputs st' else (None, st'))))"

definition port_mode :: "pcf8574 \<Rightarrow> bool \<Rightarrow> error option \<times> pcf8574" where
  "port_mode st input = poweroff_inputs (st\<lparr>dirmask := (if input then 0xFF else 0x00)\<rparr>)"

text \<open>
  \<^verbatim>\<open>pin_mode_bulk(pins)\<close>: \<open>pins\<close> is a dict from pin to a sequence whose first element is
  the input flag, here an association list in iteration order. \<^verbatim>\<open>pins[pin][0]\<close> on an
  empty sequence raises \<^verbatim>\<open>IndexError\<close>; a raise inside the loop skips the final
  synchronisation.
\<close>

fun pin_mode_bulk_loop ::
  "out_of_range \<Rightarrow> pcf8574 \<Rightarrow> (int \<times> bool list) list \<Rightarrow> error option \<times> pcf8574" where
  "pin_mode_bulk_loop oor st [] = (None, st)"
| "pin_mode_bulk_loop oor st ((pin, modes) # rest) =
     (case modes of
        [] \<Rightarrow> (Some IndexError, st)
      | inp # _ \<Rightarrow>
          (case pin_mode oor st pin inp True of
             (Some e, st') \<Rightarrow> (Some e, st')
           | (None, st') \<Rightarrow> pin_mode_bulk_loop oor st' rest))"

definition pin_mode_bulk ::
  "out_of_range \<Rightarrow> pcf8574 \<Rightarrow> (int \<times> bool list) list \<Rightarrow> error option \<times> pcf8574" where
  "pin_mode_bulk oor st pins =
     (case pin_mode_bulk_loop oor st pins of
        (Some e, st') \<Rightarrow> (Some e, st')
      | (None, st') \<Rightarrow> poweroff_inputs st')"

subsection \<open>Digital and analog pins\<close>

text \<open>
  \<^verbatim>\<open>digital_read_bulk(*pins)\<close>: one \<^verbatim>\<open>read()\<close>, then the loop fills the dict \<^verbatim>\<open>tor\<close>, a
  map from pin to \<open>Some\<close> boolean or \<open>None\<close> (Python's \<^verbatim>\<open>None\<close>).
\<close>

fun digital_read_bulk_loop ::
  "8 word \<Rightarrow> int list \<Rightarrow> (int \<rightharpoonup> bool option) \<Rightarrow> (int \<rightharpoonup> bool option)" where
  "digital_read_bulk_loop portstate [] tor = tor"
| "digital_read_bulk_loop portstate (pin # pins) tor =
     digital_read_bulk_loop portstate pins
       (if 0 \<le> pin \<and> pin < number_of_pins
        then tor(pin \<mapsto> Some (drop_bit (nat pin) portstate AND 0x01 \<noteq> 0))
        else tor(pin \<mapsto> None))"

definition digital_read_bulk ::
  "pcf8574 \<Rightarrow> int list \<Rightarrow> (error + (int \<rightharpoonup> bool option)) \<times> pcf8574" where
  "digital_read_bulk st pins =
     (case read st of
        (Inl e, st') \<Rightarrow> (Inl e, st')
      | (Inr portstate, st') \<Rightarrow> (Inr (digital_read_bulk_loop portstate pins Map.empty), st'))"

text \<open>
  \<^verbatim>\<open>digital_read(pin)\<close> indexes the dict of the bulk read; a missing key would be a
  \<^verbatim>\<open>KeyError\<close>.
\<close>

definition digital_read :: "pcf8574 \<Rightarrow> int \<Rightarrow> (error + bool option) \<times> pcf8574" where
  "digital_read st pin =
     (case digital_read_bulk st [pin] of
        (Inl e, st') \<Rightarrow> (Inl e, st')
      | (Inr tor, st') \<Rightarrow>
          (case tor pin of None \<Rightarrow> (Inl KeyError, st') | Some r \<Rightarrow> (Inr r, st')))"

text \<open>
  \<^verbatim>\<open>digital_write_bulk(pins)\<close>: \<open>pins\<close> is a dict from pin to boolean, an association list
  in iteration order; \<open>sh\<close> is the local \<^verbatim>\<open>shadow\<close>. \<^verbatim>\<open>bpin = 1 << pin\<close> lies in \<open>1..128\<close> under the guard, so
  \<^verbatim>\<open>uint8(bpin)\<close> is the byte \<open>bpin\<close>.
\<close>

fun digital_write_bulk_loop :: "8 word \<Rightarrow> (int \<times> bool) list \<Rightarrow> 8 word" where
  "digital_write_bulk_loop sh [] = sh"
| "digital_write_bulk_loop sh ((pin, high) # pins) =
     digital_write_bulk_loop
       (if 0 \<le> pin \<and> pin < number_of_pins
        then (let bpin = push_bit (nat pin) (1 :: int)
              in if high then sh OR word_of_int bpin
                 else sh AND NOT (word_of_int bpin))
        else sh)
       pins"

definition digital_write_bulk :: "pcf8574 \<Rightarrow> (int \<times> bool) list \<Rightarrow> error option \<times> pcf8574" where
  "digital_write_bulk st pins = write_port st (digital_write_bulk_loop (shadow st) pins)"

definition digital_write :: "pcf8574 \<Rightarrow> int \<Rightarrow> bool \<Rightarrow> error option \<times> pcf8574" where
  "digital_write st pin high = digital_write_bulk st [(pin, high)]"

text \<open>\<^verbatim>\<open>analog_read\<close>: \<^verbatim>\<open>255 if digital_read(pin) else 0\<close>; \<^verbatim>\<open>None\<close> is falsy.\<close>

definition analog_read :: "pcf8574 \<Rightarrow> int \<Rightarrow> (error + int) \<times> pcf8574" where
  "analog_read st pin =
     (case digital_read st pin of
        (Inl e, st') \<Rightarrow> (Inl e, st')
      | (Inr r, st') \<Rightarrow> (Inr (if r = Some True then 255 else 0), st'))"

definition analog_write :: "pcf8574 \<Rightarrow> int \<Rightarrow> int \<Rightarrow> error option \<times> pcf8574" where
  "analog_write st pin val = digital_write st pin (val > 0)"

subsection \<open>Sequences of calls\<close>

text \<open>
  The calls that change the direction mask or the shadow. \<open>run\<close> performs a sequence
  of them on one object and lists the outcome of each; a caller that catches an
  exception carries on with the object as the raise left it.
\<close>

datatype call =
    PinMode int bool bool
  | PortMode bool
  | PinModeBulk "(int \<times> bool list) list"
  | Write "8 word"
  | DigitalWrite int bool
  | DigitalWriteBulk "(int \<times> bool) list"

fun exec :: "out_of_range \<Rightarrow> pcf8574 \<Rightarrow> call \<Rightarrow> error option \<times> pcf8574" where
  "exec oor st (PinMode pin input localonly) = pin_mode oor st pin input localonly"
| "exec oor st (PortMode input) = port_mode st input"
| "exec oor st (PinModeBulk pins) = pin_mode_bulk oor st pins"
| "exec oor st (Write val) = write_port st val"
| "exec oor st (DigitalWrite pin high) = digital_write st pin high"
| "exec oor st (DigitalWriteBulk pins) = digital_write_bulk st pins"

text \<open>A call applies the mask at once unless it is \<^verbatim>\<open>pin_mode\<close> with \<^verbatim>\<open>localonly\<close> set.\<close>

fun immediate :: "call \<Rightarrow> bool" where
  "immediate (PinMode pin input localonly) = (\<not> localonly)"
| "immediate (PortMode input) = True"
| "immediate (PinModeBulk pins) = True"
| "immediate (Write val) = True"
| "immediate (DigitalWrite pin high) = True"
| "immediate (DigitalWriteBulk pins) = True"

fun run :: "out_of_range \<Rightarrow> pcf8574 \<Rightarrow> call list \<Rightarrow> (error option \<times> pcf8574) list" where
  "run oor st [] = []"
| "run oor st (c # cs) = exec oor st c # run oor (snd (exec oor st c)) cs"

subsection \<open>A concrete port\<close>

text \<open>
  A device at address \<open>0x27\<close> that answers the next read with \<open>0xA5\<close> and accepts four
  writes; pins 4..7 are inputs, pins 0..3 outputs, the shadow holds \<open>0x05\<close>.
\<close>

definition bus0 :: smbus where
  "bus0 = \<lparr>rx = [Some 0xA5], tx = [True, True, True, True], events = []\<rparr>"

definition port0 :: pcf8574 where
  "port0 = \<lparr>bus = bus0, address = 0x27, dirmask = 0xF0, shadow = 0x05\<rparr>"

section \<open>Transactions that the transport carries out\<close>

lemma read_byte_ok:
  "rx b = Some v # r \<Longrightarrow>
   read_byte b a = (Inr v, b\<lparr>rx := r, events := events b @ [ReadByte a v]\<rparr>)"
  by simp

lemma write_byte_ok:
  "tx b = True # r \<Longrightarrow>
   write_byte b a v = (None, b\<lparr>tx := r, events := events b @ [WriteByte a v]\<rparr>)"
  by simp

lemma write_port_ok:
  "tx (bus st) = True # r \<Longrightarrow>
   write_port st v =
     (None, st\<lparr>bus := (bus st)\<lparr>tx := r,
                   events := events (bus st)
                     @ [WriteByte (address st) (uint (v AND NOT (dirmask st)))]\<rparr>,
               shadow := v AND NOT (dirmask st)\<rparr>)"
  by (simp add: write_port_def Let_def)

lemma write_port_fields:
  "shadow (snd (write_port st v)) = v AND NOT (dirmask st)"
  "dirmask (snd (write_port st v)) = dirmask st"
  "address (snd (write_port st v)) = address st"
  by (simp_all add: write_port_def Let_def split: prod.splits)

lemma write_port_masked:
  "shadow (snd (write_port st v)) AND dirmask (snd (write_port st v)) = 0"
  by (simp add: write_port_fields and.assoc)

lemma read_ok:
  "rx (bus st) = Some b # r \<Longrightarrow>
   read st = (Inr (dirmask st AND b),
              st\<lparr>bus := (bus st)\<lparr>rx := r,
                  events := events (bus st) @ [ReadByte (address st) b]\<rparr>\<rparr>)"
  by (simp add: read_def)

lemma read_fields:
  "shadow (snd (read st)) = shadow st"
  "dirmask (snd (read st)) = dirmask st"
  "address (snd (read st)) = address st"
  by (simp_all add: read_def split: prod.splits list.splits option.splits sum.splits)

section \<open>The two pin loops\<close>

lemma pin_bit: "(drop_bit n (w :: 8 word) AND 0x01 \<noteq> 0) = bit w n"
  by (simp add: bit_iff_odd_drop_bit and_one_eq odd_iff_mod_2_eq_one)

lemma digital_read_bulk_loop_eq:
  "digital_read_bulk_loop ps pins tor =
     (\<lambda>p. if p \<in> set pins
          then Some (if 0 \<le> p \<and> p < 8 then Some (bit ps (nat p)) else None)
          else tor p)"
  by (induction pins arbitrary: tor) (auto simp: number_of_pins_def pin_bit fun_eq_iff)

lemma digital_write_bulk_loop_bit:
  "distinct (map fst pins) \<Longrightarrow> i < 8 \<Longrightarrow>
   bit (digital_write_bulk_loop sh pins) i =
     (case map_of pins (int i) of Some h \<Rightarrow> h | None \<Rightarrow> bit sh i)"
proof (induction pins arbitrary: sh)
  case Nil
  then show ?case by simp
next
  case (Cons a pins)
  then show ?case
    by (cases a) (force simp: number_of_pins_def Let_def bit_simps split: option.splits)
qed

section \<open>Reads through the direction mask\<close>

lemma digital_read_bulk_ok:
  "rx (bus st) = Some b # r \<Longrightarrow>
   digital_read_bulk st pins =
     (Inr (\<lambda>p. if p \<in> set pins
               then Some (if 0 \<le> p \<and> p < 8 then Some (bit (dirmask st AND b) (nat p))
                          else None)
               else None),
      st\<lparr>bus := (bus st)\<lparr>rx := r,
          events := events (bus st) @ [ReadByte (address st) b]\<rparr>\<rparr>)"
  by (simp add: digital_read_bulk_def read_ok digital_read_bulk_loop_eq)

lemma digital_read_ok:
  "rx (bus st) = Some b # r \<Longrightarrow>
   digital_read st pin =
     (Inr (if 0 \<le> pin \<and> pin < 8 then Some (bit (dirmask st AND b) (nat pin)) else None),
      st\<lparr>bus := (bus st)\<lparr>rx := r,
          events := events (bus st) @ [ReadByte (address st) b]\<rparr>\<rparr>)"
  by (simp add: digital_read_def digital_read_bulk_ok)

section \<open>Every write masks the shadow\<close>

lemma write_port_result_masked:
  "write_port st v = (r, st') \<Longrightarrow> shadow st' AND dirmask st' = 0"
  using write_port_masked [of st v] by simp

lemma poweroff_inputs_masked:
  "poweroff_inputs st = (r, st') \<Longrightarrow> shadow st' AND dirmask st' = 0"
  by (simp add: poweroff_inputs_def write_port_result_masked)

lemma pin_mode_masked:
  "pin_mode oor st pin input False = (None, st') \<Longrightarrow> shadow st' AND dirmask st' = 0"
  by (auto simp: pin_mode_def Let_def split: sum.splits if_splits
      dest: poweroff_inputs_masked)

lemma pin_mode_bulk_masked:
  "pin_mode_bulk oor st pins = (None, st') \<Longrightarrow> shadow st' AND dirmask st' = 0"
  by (auto simp: pin_mode_bulk_def split: prod.splits option.splits
      dest: poweroff_inputs_masked)

lemma exec_masked:
  assumes "immediate c" and "exec oor st c = (None, st')"
  shows "shadow st' AND dirmask st' = 0"
proof (cases c)
  case (PinMode pin input localonly)
  with assms show ?thesis by (simp add: pin_mode_masked)
next
  case (PortMode input)
  with assms show ?thesis by (auto simp: port_mode_def dest: poweroff_inputs_masked)
next
  case (PinModeBulk pins)
  with assms show ?thesis by (simp add: pin_mode_bulk_masked)
next
  case (Write val)
  with assms show ?thesis by (auto dest: write_port_result_masked)
next
  case (DigitalWrite pin high)
  with assms show ?thesis
    by (auto simp: digital_write_def digital_write_bulk_def dest: write_port_result_masked)
next
  case (DigitalWriteBulk pins)
  with assms show ?thesis
    by (auto simp: digital_write_bulk_def dest: write_port_result_masked)
qed

section \<open>Raw port write\<close>

text \<open>
  C1. For every 8-bit value \<open>v\<close>, \<^verbatim>\<open>write(v)\<close> stores \<open>v AND NOT dirmask\<close> in the shadow
  (whatever the transport does afterwards) and leaves the direction mask and the address
  alone; when the transport carries the transaction out, the call returns, the log grows
  by exactly one event, a write to the device address of the byte now stored in the
  shadow, and no read is consumed.
\<close>

theorem write_shadow_then_one_bus_write:
  "shadow (snd (write_port st v)) = v AND NOT (dirmask st)
   \<and> dirmask (snd (write_port st v)) = dirmask st
   \<and> address (snd (write_port st v)) = address st
   \<and> (tx (bus st) = True # r \<longrightarrow>
        fst (write_port st v) = None
        \<and> events (bus (snd (write_port st v)))
            = events (bus st) @ [WriteByte (address st) (uint (shadow (snd (write_port st v))))]
        \<and> tx (bus (snd (write_port st v))) = r
        \<and> rx (bus (snd (write_port st v))) = rx (bus st))"
  by (auto simp: write_port_def Let_def split: list.splits bool.splits prod.splits)

theorem write_shadow_then_one_bus_write_witness:
  "tx \<lparr>rx = [], tx = [True], events = []\<rparr> = True # []
   \<and> fst (write_port \<lparr>bus = \<lparr>rx = [], tx = [True], events = []\<rparr>, address = 0x20,
                   dirmask = 0x0F, shadow = 0\<rparr> 0xFF) = None
   \<and> events (bus (snd (write_port \<lparr>bus = \<lparr>rx = [], tx = [True], events = []\<rparr>, address = 0x20,
                   dirmask = 0x0F, shadow = 0\<rparr> 0xFF))) = [WriteByte 0x20 0xF0]"
  using write_shadow_then_one_bus_write
    [of "\<lparr>bus = \<lparr>rx = [], tx = [True], events = []\<rparr>, address = 0x20,
          dirmask = 0x0F, shadow = 0\<rparr>" "0xFF" "[]"]
  by (simp add: write_port_def Let_def)

section \<open>The masking invariant\<close>

text \<open>
  C2. In every sequence of \<^verbatim>\<open>pin_mode\<close>, \<^verbatim>\<open>port_mode\<close>, \<^verbatim>\<open>pin_mode_bulk\<close>, \<^verbatim>\<open>write\<close>,
  \<^verbatim>\<open>digital_write\<close> and \<^verbatim>\<open>digital_write_bulk\<close> calls, started from any object, after each
  call that applies the mask at once (every call but \<^verbatim>\<open>pin_mode\<close> with \<^verbatim>\<open>localonly\<close>)
  and that returns, \<open>shadow AND dirmask = 0\<close>. Nothing is assumed of the object before
  the sequence, of the earlier calls (they may have raised) or of \<^verbatim>\<open>uint8\<close> out of range.
\<close>

theorem shadow_masked_after_each_call:
  "i < length cs \<Longrightarrow> immediate (cs ! i) \<Longrightarrow> run oor st cs ! i = (None, st')
   \<Longrightarrow> shadow st' AND dirmask st' = 0"
proof (induction cs arbitrary: st i)
  case Nil
  then show ?case by simp
next
  case (Cons c cs)
  show ?case
  proof (cases i)
    case 0
    with Cons.prems show ?thesis by (simp add: exec_masked)
  next
    case (Suc j)
    with Cons.prems show ?thesis by (auto intro: Cons.IH)
  qed
qed


theorem shadow_masked_after_each_call_witness:
  "(2 :: nat) < length [PortMode False, DigitalWrite 3 True, PinMode 3 True False]
   \<and> immediate ([PortMode False, DigitalWrite 3 True, PinMode 3 True False] ! 2)
   \<and> fst (run (\<lambda>n. Inl OverflowError) port0
             [PortMode False, DigitalWrite 3 True, PinMode 3 True False] ! 2) = None
   \<and> shadow (snd (run (\<lambda>n. Inl OverflowError) port0
             [PortMode False, DigitalWrite 3 True, PinMode 3 True False] ! 2))
       AND dirmask (snd (run (\<lambda>n. Inl OverflowError) port0
             [PortMode False, DigitalWrite 3 True, PinMode 3 True False] ! 2)) = 0"
proof -
  let ?cs = "[PortMode False, DigitalWrite 3 True, PinMode 3 True False]"
  let ?r = "run (\<lambda>n. Inl OverflowError) port0 ?cs ! 2"
  have l: "(2 :: nat) < length ?cs" by simp
  have i: "immediate (?cs ! 2)" by simp
  have f: "fst ?r = None"
    by (simp add: port0_def bus0_def port_mode_def pin_mode_def poweroff_inputs_def
        write_port_def digital_write_def digital_write_bulk_def lshift1_def uint8_def
        number_of_pins_def Let_def)
  then have e: "?r = (None, snd ?r)" by (simp add: prod_eq_iff)
  from shadow_masked_after_each_call [OF l i e] l i f show ?thesis by blast
qed

section \<open>Raw port read\<close>

text \<open>
  C3. \<^verbatim>\<open>read()\<close> never changes the shadow or the direction mask. When the transport
  answers the read with byte \<open>b\<close>, \<^verbatim>\<open>read()\<close> returns \<open>dirmask AND b\<close> and the log grows by
  exactly one event, a read of the device address; and for every pin 0..7 whose direction
  bit is 0 (an output), \<^verbatim>\<open>digital_read(pin)\<close> returns \<^verbatim>\<open>False\<close> whatever \<open>b\<close> is.
\<close>

theorem read_masks_outputs:
  "shadow (snd (read st)) = shadow st
   \<and> dirmask (snd (read st)) = dirmask st
   \<and> (rx (bus st) = Some b # r \<longrightarrow>
        read st = (Inr (dirmask st AND b),
                   st\<lparr>bus := (bus st)\<lparr>rx := r,
                       events := events (bus st) @ [ReadByte (address st) b]\<rparr>\<rparr>)
        \<and> (\<forall>pin. 0 \<le> pin \<and> pin < 8 \<and> \<not> bit (dirmask st) (nat pin)
               \<longrightarrow> fst (digital_read st pin) = Inr (Some False)))"
  by (simp add: read_fields read_ok digital_read_ok bit_and_iff)

theorem read_masks_outputs_witness:
  "rx (bus port0) = Some 0xA5 # []
   \<and> fst (read port0) = Inr 0xA0
   \<and> events (bus (snd (read port0))) = [ReadByte 0x27 0xA5]
   \<and> \<not> bit (dirmask port0) (nat 2)
   \<and> fst (digital_read port0 2) = Inr (Some False)"
  using read_masks_outputs [of port0 "0xA5" "[]"]
  by (simp add: port0_def bus0_def)

section \<open>Bulk read\<close>

text \<open>
  C4. For every sequence of requested pins (empty, short, long, with repetitions), when
  the transport answers the read with byte \<open>b\<close>, \<^verbatim>\<open>digital_read_bulk\<close> returns without
  error, the log grows by exactly one read of the device address, and the dict returned
  has exactly the requested pins as keys: a pin \<open>p\<close> with \<open>0 \<le> p < 8\<close> maps to bit \<open>p\<close> of
  the masked byte \<open>dirmask AND b\<close>, every other requested pin maps to \<^verbatim>\<open>None\<close>.
\<close>

theorem digital_read_bulk_one_read:
  "rx (bus st) = Some b # r \<Longrightarrow>
   digital_read_bulk st pins =
     (Inr (\<lambda>p. if p \<in> set pins
               then Some (if 0 \<le> p \<and> p < 8 then Some (bit (dirmask st AND b) (nat p))
                          else None)
               else None),
      st\<lparr>bus := (bus st)\<lparr>rx := r,
          events := events (bus st) @ [ReadByte (address st) b]\<rparr>\<rparr>)"
  by (rule digital_read_bulk_ok)

theorem digital_read_bulk_one_read_witness:
  "rx (bus port0) = Some 0xA5 # []
   \<and> events (bus (snd (digital_read_bulk port0 [0, 5, 7, 9, -1, 5]))) = [ReadByte 0x27 0xA5]
   \<and> (\<exists>tor. fst (digital_read_bulk port0 [0, 5, 7, 9, -1, 5]) = Inr tor
         \<and> tor 0 = Some (Some False) \<and> tor 5 = Some (Some True) \<and> tor 7 = Some (Some True)
         \<and> tor 9 = Some None \<and> tor (-1) = Some None \<and> tor 3 = None)"
  using digital_read_bulk_one_read [of port0 "0xA5" "[]" "[0, 5, 7, 9, -1, 5]"]
  by (simp add: port0_def bus0_def bit_and_iff)

section \<open>Bulk write\<close>

text \<open>
  C5. For every dict of pins to booleans (its keys distinct, as in any dict; possibly
  empty), the value that \<^verbatim>\<open>digital_write_bulk\<close> computes from the shadow has, at each
  bit \<open>i < 8\<close>, the boolean the dict gives pin \<open>i\<close>, or the shadow's bit when the dict
  does not mention pin \<open>i\<close>; entries for pins outside 0..7 change nothing. When the
  transport carries the transaction out, the call returns after exactly one
  \<^verbatim>\<open>write()\<close> of that value: the shadow is the value masked by \<open>NOT dirmask\<close>, the log
  grows by exactly one write of that byte, and the direction mask is unchanged.
\<close>

theorem digital_write_bulk_one_write:
  "distinct (map fst pins) \<Longrightarrow> tx (bus st) = True # r \<Longrightarrow>
   (\<forall>i<8. bit (digital_write_bulk_loop (shadow st) pins) i =
            (case map_of pins (int i) of Some high \<Rightarrow> high | None \<Rightarrow> bit (shadow st) i))
   \<and> digital_write_bulk st pins =
       (None, st\<lparr>bus := (bus st)\<lparr>tx := r,
                     events := events (bus st)
                       @ [WriteByte (address st)
                            (uint (digital_write_bulk_loop (shadow st) pins AND NOT (dirmask st)))]\<rparr>,
                 shadow := digital_write_bulk_loop (shadow st) pins AND NOT (dirmask st)\<rparr>)"
  by (simp add: digital_write_bulk_loop_bit digital_write_bulk_def write_port_ok)

theorem digital_write_bulk_one_write_witness:
  "distinct (map fst [(1 :: int, True), (0, False), (9, True), (-2, False)])
   \<and> tx (bus port0) = True # [True, True, True]
   \<and> digital_write_bulk_loop (shadow port0) [(1, True), (0, False), (9, True), (-2, False)] = 0x06
   \<and> fst (digital_write_bulk port0 [(1, True), (0, False), (9, True), (-2, False)]) = None
   \<and> events (bus (snd (digital_write_bulk port0 [(1, True), (0, False), (9, True), (-2, False)])))
       = [WriteByte 0x27 0x06]
   \<and> events (bus (snd (digital_write_bulk port0 []))) = [WriteByte 0x27 0x05]"
  using digital_write_bulk_one_write [of "[(1, True), (0, False), (9, True), (-2, False)]" port0 "[True, True, True]"]
    digital_write_bulk_one_write [of "[]" port0 "[True, True, True]"]
  by (simp add: port0_def bus0_def number_of_pins_def Let_def)

section \<open>A scenario: output, then input again\<close>

lemma lshift1_3: "lshift1 3 = Inr 8"
  by (simp add: lshift1_def)

lemma neg_256_byte: "(- 256 :: 8 word) = 0"
  by simp

lemma neg_248_byte: "(- 248 :: 8 word) = 8"
  by simp

text \<open>
  C6. On a transport that answers the opening read with any byte \<open>b0\<close> and carries out
  the next four writes, for any device address and any behaviour of \<^verbatim>\<open>uint8\<close> out of
  range: the port opens; \<^verbatim>\<open>port_mode(True)\<close> returns with shadow \<open>0x00\<close>;
  \<^verbatim>\<open>pin_mode(3, False)\<close> returns with direction bit 3 cleared (mask \<open>0xF7\<close>) and
  \<open>shadow AND dirmask = 0\<close>; \<^verbatim>\<open>digital_write(3, True)\<close> returns with shadow \<open>0x08\<close> and
  the transport logs one write of byte \<open>0x08\<close>; \<^verbatim>\<open>pin_mode(3, True)\<close> returns, the
  transport logs one write of byte \<open>0x00\<close>, and bit 3 of the shadow is cleared.
\<close>

theorem scenario_output_then_input:
  assumes "rx b = Some b0 # rr" and "tx b = True # True # True # True # tr"
  shows "\<exists>s0 s1 s2 s3 s4.
           init b a = Inr s0
         \<and> port_mode s0 True = (None, s1) \<and> shadow s1 = 0x00
         \<and> pin_mode oor s1 3 False False = (None, s2)
         \<and> \<not> bit (dirmask s2) 3 \<and> dirmask s2 = 0xF7 \<and> shadow s2 AND dirmask s2 = 0
         \<and> digital_write s2 3 True = (None, s3) \<and> shadow s3 = 0x08
         \<and> events (bus s3) = events (bus s2) @ [WriteByte a 0x08]
         \<and> pin_mode oor s3 3 True False = (None, s4)
         \<and> events (bus s4) = events (bus s3) @ [WriteByte a 0x00]
         \<and> \<not> bit (shadow s4) 3 \<and> shadow s4 = 0x00"
  using assms
  by (simp add: init_def port_mode_def pin_mode_def poweroff_inputs_def write_port_def
      digital_write_def digital_write_bulk_def lshift1_3 uint8_def number_of_pins_def Let_def
      neg_256_byte neg_248_byte)

theorem scenario_output_then_input_witness:
  "rx bus0 = Some 0xA5 # [] \<and> tx bus0 = True # True # True # True # []
   \<and> (\<exists>s0 s1 s2 s3 s4.
           init bus0 0x27 = Inr s0
         \<and> port_mode s0 True = (None, s1) \<and> shadow s1 = 0x00
         \<and> pin_mode (\<lambda>n. Inl OverflowError) s1 3 False False = (None, s2)
         \<and> \<not> bit (dirmask s2) 3 \<and> dirmask s2 = 0xF7 \<and> shadow s2 AND dirmask s2 = 0
         \<and> digital_write s2 3 True = (None, s3) \<and> shadow s3 = 0x08
         \<and> events (bus s3) = events (bus s2) @ [WriteByte 0x27 0x08]
         \<and> pin_mode (\<lambda>n. Inl OverflowError) s3 3 True False = (None, s4)
         \<and> events (bus s4) = events (bus s3) @ [WriteByte 0x27 0x00]
         \<and> \<not> bit (shadow s4) 3 \<and> shadow s4 = 0x00)"
proof -
  have r: "rx bus0 = Some 0xA5 # []" and t: "tx bus0 = True # True # True # True # []"
    by (simp_all add: bus0_def)
  from scenario_output_then_input [OF r t, of "0x27" "\<lambda>n. Inl OverflowError"] r t
  show ?thesis by blast
qed

section \<open>Pins outside 0..7\<close>

text \<open>
  C7. For every pin \<open>p\<close> with \<open>p < 0\<close> or \<open>p \<ge> 8\<close> and either boolean,
  \<^verbatim>\<open>digital_write_bulk({p: high})\<close> is the very call \<^verbatim>\<open>digital_write_bulk({})\<close>: the same
  outcome, the same shadow, the same byte on the bus. And when the transport answers the
  read, \<^verbatim>\<open>digital_read_bulk(p)\<close> returns without error the dict \<open>{p: None}\<close>, after one
  read of the device address.
\<close>

theorem out_of_range_pins:
  "pin < 0 \<or> 8 \<le> pin \<Longrightarrow>
   digital_write_bulk st [(pin, high)] = digital_write_bulk st []
   \<and> (rx (bus st) = Some b # r \<longrightarrow>
        digital_read_bulk st [pin] =
          (Inr [pin \<mapsto> None],
           st\<lparr>bus := (bus st)\<lparr>rx := r,
               events := events (bus st) @ [ReadByte (address st) b]\<rparr>\<rparr>))"
  by (auto simp: digital_write_bulk_def number_of_pins_def digital_read_bulk_ok fun_eq_iff)

theorem out_of_range_pins_witness:
  "((9 :: int) < 0 \<or> 8 \<le> (9 :: int))
   \<and> rx (bus port0) = Some 0xA5 # []
   \<and> digital_write_bulk port0 [(9, True)] = digital_write_bulk port0 []
   \<and> events (bus (snd (digital_write_bulk port0 [(9, True)]))) = [WriteByte 0x27 0x05]
   \<and> fst (digital_read_bulk port0 [9]) = Inr [9 \<mapsto> None]"
  using out_of_range_pins [of 9 port0 True "0xA5" "[]"]
  by (simp add: port0_def bus0_def digital_write_bulk_def write_port_def Let_def)

section \<open>Analog pins\<close>

text \<open>
  C8, as the claim states it, fails: a negative value is nonzero, and
  \<^verbatim>\<open>analog_write(3, -1)\<close> is \<^verbatim>\<open>digital_write(3, False)\<close>, which on an output pin 3 with a
  clear shadow sends \<open>0x00\<close> where \<^verbatim>\<open>digital_write(3, True)\<close> sends \<open>0x08\<close>.
\<close>

theorem analog_write_negative_counterexample:
  "analog_write \<lparr>bus = \<lparr>rx = [], tx = [True], events = []\<rparr>, address = 0x27,
                  dirmask = 0x00, shadow = 0x00\<rparr> 3 (- 1)
   \<noteq> digital_write \<lparr>bus = \<lparr>rx = [], tx = [True], events = []\<rparr>, address = 0x27,
                      dirmask = 0x00, shadow = 0x00\<rparr> 3 True"
  by (simp add: analog_write_def digital_write_def digital_write_bulk_def write_port_def
      number_of_pins_def Let_def)

text \<open>
  C8, amended. For every pin, \<^verbatim>\<open>analog_write(pin, value)\<close> is \<^verbatim>\<open>digital_write(pin, True)\<close>
  for every value greater than zero, and \<^verbatim>\<open>digital_write(pin, False)\<close> for every value
  less than or equal to zero.
\<close>

theorem analog_write_threshold:
  "(0 < val \<longrightarrow> analog_write st pin val = digital_write st pin True)
   \<and> (val \<le> 0 \<longrightarrow> analog_write st pin val = digital_write st pin False)"
  by (simp add: analog_write_def)

theorem analog_write_threshold_witness:
  "(0 :: int) < 7 \<and> analog_write port0 1 7 = digital_write port0 1 True
   \<and> (- 4 :: int) \<le> 0 \<and> analog_write port0 1 (- 4) = digital_write port0 1 False
   \<and> events (bus (snd (analog_write port0 1 7))) = [WriteByte 0x27 0x07]
   \<and> events (bus (snd (analog_write port0 1 (- 4)))) = [WriteByte 0x27 0x05]"
  using analog_write_threshold [of 7 port0 1] analog_write_threshold [of "- 4" port0 1]
  by (simp add: port0_def bus0_def digital_write_def digital_write_bulk_def write_port_def
      number_of_pins_def Let_def)

text \<open>
  C9. For every pin, in range or not, \<^verbatim>\<open>analog_read(pin)\<close> leaves the object exactly as
  \<^verbatim>\<open>digital_read(pin)\<close> does; whenever it returns a value, the value is 255 or 0, and it
  is 255 exactly when \<^verbatim>\<open>digital_read(pin)\<close> returns \<^verbatim>\<open>True\<close>. When the transport answers
  the read with byte \<open>b\<close> it does return: 255 if the pin is in 0..7 and its bit of
  \<open>dirmask AND b\<close> is set, else 0.
\<close>

theorem analog_read_binary:
  "snd (analog_read st pin) = snd (digital_read st pin)
   \<and> (\<forall>v. fst (analog_read st pin) = Inr v \<longrightarrow>
          (v = 255 \<or> v = 0) \<and> (v = 255 \<longleftrightarrow> fst (digital_read st pin) = Inr (Some True)))
   \<and> (rx (bus st) = Some b # r \<longrightarrow>
        fst (analog_read st pin)
          = Inr (if 0 \<le> pin \<and> pin < 8 \<and> bit (dirmask st AND b) (nat pin) then 255 else 0))"
  by (auto simp: analog_read_def digital_read_ok split: prod.splits sum.splits)

theorem analog_read_binary_witness:
  "rx (bus port0) = Some 0xA5 # []
   \<and> fst (analog_read port0 5) = Inr 255
   \<and> fst (digital_read port0 5) = Inr (Some True)
   \<and> snd (analog_read port0 5) = snd (digital_read port0 5)"
proof -
  have r: "rx (bus port0) = Some 0xA5 # []"
    by (simp add: port0_def bus0_def)
  have m: "dirmask port0 AND 0xA5 = 0xA0"
    by (simp add: port0_def)
  have b: "bit (0xA0 :: 8 word) 5"
    by simp
  have d: "fst (digital_read port0 5) = Inr (Some True)"
    by (simp add: digital_read_ok [OF r] m b)
  from analog_read_binary [of port0 5 "0xA5" "[]"] r
  have s: "snd (analog_read port0 5) = snd (digital_read port0 5)"
    and v: "fst (analog_read port0 5)
      = Inr (if 0 \<le> (5 :: int) \<and> (5 :: int) < 8 \<and> bit (dirmask port0 AND 0xA5) (nat 5)
             then 255 else 0)"
    by blast+
  from v have a: "fst (analog_read port0 5) = Inr 255"
    by (simp add: m b)
  from r a d s show ?thesis by blast
qed

text \<open>
  C10. For every pin \<open>p\<close> with \<open>p < 0\<close> or \<open>p \<ge> 8\<close>, when the transport answers the read
  (which is still issued, once), \<^verbatim>\<open>digital_read(p)\<close> returns \<^verbatim>\<open>None\<close>, not a boolean, and
  \<^verbatim>\<open>analog_read(p)\<close> returns 0.
\<close>

theorem digital_read_out_of_range_is_None:
  "pin < 0 \<or> 8 \<le> pin \<Longrightarrow> rx (bus st) = Some b # r \<Longrightarrow>
   fst (digital_read st pin) = Inr None \<and> fst (analog_read st pin) = Inr 0
   \<and> events (bus (snd (digital_read st pin)))
       = events (bus st) @ [ReadByte (address st) b]"
  by (auto simp: analog_read_def digital_read_ok)

theorem digital_read_out_of_range_is_None_witness:
  "((- 1 :: int) < 0 \<or> 8 \<le> (- 1 :: int)) \<and> rx (bus port0) = Some 0xA5 # []
   \<and> fst (digital_read port0 (- 1)) = Inr None \<and> fst (analog_read port0 (- 1)) = Inr 0
   \<and> fst (digital_read port0 8) = Inr None \<and> fst (analog_read port0 8) = Inr 0"
  using digital_read_out_of_range_is_None [of "- 1" port0 "0xA5" "[]"]
    digital_read_out_of_range_is_None [of 8 port0 "0xA5" "[]"]
  by (simp add: port0_def bus0_def)

end
